theory Spec2Isabelle
  imports Complex_Main
begin

section \<open>Microgrid simulation: the dispatch core of Microgrid\_simulation.py\<close>

text \<open>
  The embedding follows \<^verbatim>\<open>src/Microgrid_simulation/Microgrid_simulation.py\<close>.
  Python floats are modelled as real numbers: every arithmetic operation is exact, so
  rounding is outside the model. A division whose divisor is zero has no real value
  (Python raises \<^verbatim>\<open>ZeroDivisionError\<close> on floats, NumPy yields inf or nan); the model
  makes it the error \<open>ZeroDivisionError\<close>. Reading a column that a row does not have
  is the error \<open>KeyError\<close>. An error aborts the run, as the exception does.
\<close>

datatype py_error = KeyError string | ZeroDivisionError

subsection \<open>Enums and configuration (lines 11--65)\<close>

datatype HeatPumpType = LV | JH | JV

fun HeatPumpType_value :: "HeatPumpType \<Rightarrow> string" where
  "HeatPumpType_value LV = ''COP_LV''"
| "HeatPumpType_value JH = ''COP_JH''"
| "HeatPumpType_value JV = ''COP_JV''"

text \<open>
  \<^verbatim>\<open>ComponentLimits\<close>. The first two fields are \<^verbatim>\<open>p_bat_charge\<close> and
  \<^verbatim>\<open>p_bat_discharge\<close> in the source; they carry the suffix \<open>_lim\<close> here because the
  hourly log has keys of the same names.
\<close>

record ComponentLimits =
  p_bat_charge_lim :: real
  p_bat_discharge_lim :: real
  p_electrolyser :: real
  p_fuel_cell :: real

definition ComponentLimits_default :: ComponentLimits where
  "ComponentLimits_default =
     \<lparr>p_bat_charge_lim = 20, p_bat_discharge_lim = 20, p_electrolyser = 10, p_fuel_cell = 10\<rparr>"

text \<open>
  \<^verbatim>\<open>SystemParameters\<close>, the fields the simulator reads. The type parameter is the type
  of \<^verbatim>\<open>h2_init_kwh\<close>: \<open>real option\<close> for the keyword arguments of the constructor
  (\<open>None\<close> is Python's \<^verbatim>\<open>None\<close>), \<open>real\<close> for the object after
  \<^verbatim>\<open>__post_init__\<close>. The path of the workbook, the sheet name and the time column are
  read by the loader only and are left out.
\<close>

record 'h SystemParameters =
  pv_column :: string
  plug_column :: string
  space_heat_column :: string
  dhw_column :: string
  eta_inv :: real
  eta_bat_roundtrip :: real
  eta_electrolyser :: real
  eta_fuel_cell :: real
  battery_capacity_kwh :: real
  h2_capacity_kwh :: real
  soc_bat_init :: real
  h2_init_kwh :: 'h
  heat_pump_type :: HeatPumpType
  limits :: ComponentLimits

text \<open>The defaults of the dataclass (lines 31--52).\<close>

definition SystemParameters_default :: "real option SystemParameters" where
  "SystemParameters_default =
     \<lparr>pv_column = ''Solproduktion'', plug_column = ''Elforbrug'',
      space_heat_column = ''Varmeforbrug'', dhw_column = ''Forbrug varmt brugsvand'',
      eta_inv = 86 / 100, eta_bat_roundtrip = 95 / 100,
      eta_electrolyser = 55 / 100, eta_fuel_cell = 55 / 100,
      battery_capacity_kwh = 82, h2_capacity_kwh = 1000,
      soc_bat_init = 1 / 2, h2_init_kwh = None,
      heat_pump_type = LV, limits = ComponentLimits_default\<rparr>"

text \<open>
  \<^verbatim>\<open>__post_init__\<close> (lines 63--65): a missing initial hydrogen level becomes half the
  tank capacity. Nothing else is read or changed.
\<close>

definition post_init :: "real option SystemParameters \<Rightarrow> real SystemParameters" where
  "post_init a =
     \<lparr>pv_column = pv_column a, plug_column = plug_column a,
      space_heat_column = space_heat_column a, dhw_column = dhw_column a,
      eta_inv = eta_inv a, eta_bat_roundtrip = eta_bat_roundtrip a,
      eta_electrolyser = eta_electrolyser a, eta_fuel_cell = eta_fuel_cell a,
      battery_capacity_kwh = battery_capacity_kwh a, h2_capacity_kwh = h2_capacity_kwh a,
      soc_bat_init = soc_bat_init a,
      h2_init_kwh = (case h2_init_kwh a of None \<Rightarrow> (1 / 2) * h2_capacity_kwh a | Some v \<Rightarrow> v),
      heat_pump_type = heat_pump_type a, limits = limits a\<rparr>"

text \<open>
  Constructing a \<^verbatim>\<open>SystemParameters\<close>: the generated \<^verbatim>\<open>__init__\<close> stores the
  arguments and calls \<^verbatim>\<open>__post_init__\<close>. Neither contains a \<^verbatim>\<open>raise\<close>, so no branch
  of the model returns an error.
\<close>

definition SystemParameters_new ::
  "real option SystemParameters \<Rightarrow> py_error + real SystemParameters" where
  "SystemParameters_new a = Inr (post_init a)"

text \<open>
  The derived properties \<^verbatim>\<open>charge_eff\<close> and \<^verbatim>\<open>discharge_eff\<close> (lines 55--61).
  \<^verbatim>\<open>np.sqrt\<close> of a negative number is nan; the model is meant for a round-trip
  efficiency that is not negative.
\<close>

definition charge_eff :: "real SystemParameters \<Rightarrow> real" where
  "charge_eff p = sqrt (eta_bat_roundtrip p)"

definition discharge_eff :: "real SystemParameters \<Rightarrow> real" where
  "discharge_eff p = sqrt (eta_bat_roundtrip p)"

subsection \<open>Battery (lines 99--122)\<close>

record Battery =
  cap :: real
  soc :: real
  eta_c :: real
  eta_d :: real
  p_charge_max :: real
  p_discharge_max :: real

definition Battery_init :: "real SystemParameters \<Rightarrow> Battery" where
  "Battery_init params =
     \<lparr>cap = battery_capacity_kwh params,
      soc = soc_bat_init params * battery_capacity_kwh params,
      eta_c = charge_eff params,
      eta_d = discharge_eff params,
      p_charge_max = p_bat_charge_lim (limits params),
      p_discharge_max = p_bat_discharge_lim (limits params)\<rparr>"

text \<open>
  \<^verbatim>\<open>charge\<close> and \<^verbatim>\<open>discharge\<close> return the power and the battery with its new state
  of charge.
\<close>

definition charge :: "Battery \<Rightarrow> real \<Rightarrow> real \<Rightarrow> py_error + (real \<times> Battery)" where
  "charge b p_requested_kw dt_h =
     (let p = min p_requested_kw (p_charge_max b);
          e_in = p * dt_h * eta_c b;
          space_left = cap b - soc b;
          e_actual = min e_in space_left
      in if dt_h = 0 then Inl ZeroDivisionError
         else Inr (e_actual / dt_h, b\<lparr>soc := soc b + e_actual\<rparr>))"

definition discharge :: "Battery \<Rightarrow> real \<Rightarrow> real \<Rightarrow> py_error + (real \<times> Battery)" where
  "discharge b p_requested_kw dt_h =
     (let p = min p_requested_kw (p_discharge_max b)
      in if eta_d b = 0 then Inl ZeroDivisionError
         else
           (let e_out_request = p * dt_h / eta_d b;
                e_available = min e_out_request (soc b)
            in if dt_h = 0 then Inl ZeroDivisionError
               else Inr (e_available * eta_d b / dt_h, b\<lparr>soc := soc b - e_available\<rparr>)))"

subsection \<open>HydrogenStore (lines 125--151)\<close>

text \<open>The field \<^verbatim>\<open>cap\<close> of the store is \<open>cap_h2\<close> here: \<open>cap\<close> is the battery's.\<close>

record HydrogenStore =
  cap_h2 :: real
  h2 :: real
  eta_elec :: real
  eta_fc :: real
  p_elec_max :: real
  p_fc_max :: real

definition HydrogenStore_init :: "real SystemParameters \<Rightarrow> HydrogenStore" where
  "HydrogenStore_init params =
     \<lparr>cap_h2 = h2_capacity_kwh params,
      h2 = h2_init_kwh params,
      eta_elec = eta_electrolyser params,
      eta_fc = eta_fuel_cell params,
      p_elec_max = p_electrolyser (limits params),
      p_fc_max = p_fuel_cell (limits params)\<rparr>"

definition electrolyse ::
  "HydrogenStore \<Rightarrow> real \<Rightarrow> real \<Rightarrow> py_error + (real \<times> HydrogenStore)" where
  "electrolyse s p_kw dt_h =
     (let p = min p_kw (p_elec_max s);
          e_h2 = p * dt_h * eta_elec s;
          space_left = cap_h2 s - h2 s;
          e_actual = min e_h2 space_left
      in if eta_elec s * dt_h = 0 then Inl ZeroDivisionError
         else Inr (e_actual / (eta_elec s * dt_h), s\<lparr>h2 := h2 s + e_actual\<rparr>))"

text \<open>\<^verbatim>\<open>fuel_cell\<close> returns \<open>((p_ac, p_heat), store)\<close>.\<close>

definition fuel_cell ::
  "HydrogenStore \<Rightarrow> real \<Rightarrow> real \<Rightarrow> py_error + ((real \<times> real) \<times> HydrogenStore)" where
  "fuel_cell s p_kw dt_h =
     (let p = min p_kw (p_fc_max s)
      in if eta_fc s = 0 then Inl ZeroDivisionError
         else
           (let e_h2_needed = p * dt_h / eta_fc s;
                e_available = min e_h2_needed (h2 s)
            in if dt_h = 0 then Inl ZeroDivisionError
               else
                 (let p_ac = e_available * eta_fc s / dt_h;
                      p_heat = (e_available - p_ac * dt_h) / dt_h
                  in Inr ((p_ac, p_heat), s\<lparr>h2 := h2 s - e_available\<rparr>))))"

subsection \<open>The simulator (lines 156--258)\<close>

text \<open>
  The input is a data frame: a list of rows in time order, each row a map from column
  names to numbers. \<^verbatim>\<open>row[col]\<close> raises \<^verbatim>\<open>KeyError\<close> when the column is missing.
\<close>

type_synonym row = "string \<rightharpoonup> real"

definition row_get :: "row \<Rightarrow> string \<Rightarrow> py_error + real" where
  "row_get r col = (case r col of None \<Rightarrow> Inl (KeyError col) | Some v \<Rightarrow> Inr v)"

text \<open>The tolerance of \<^verbatim>\<open>run\<close> (line 182), in kW.\<close>

definition EPS :: real where
  "EPS = 1 / 1000000"

text \<open>
  The surplus branch (lines 203--211), called with \<open>net_kw \<ge> 0\<close>: charge the battery,
  run the electrolyser on what is left if that exceeds the literal \<^verbatim>\<open>1e-6\<close>, export
  the rest if it exceeds \<open>EPS\<close>. The device calls use the default \<^verbatim>\<open>dt_h = 1.0\<close>.
  The result is \<open>((p_bat_ch, p_elec, p_grid_exp), battery, store)\<close>; a branch that does
  not assign \<^verbatim>\<open>p_elec\<close> leaves it at the 0.0 of line 200.
\<close>

definition surplus_branch ::
  "Battery \<Rightarrow> HydrogenStore \<Rightarrow> real \<Rightarrow>
     py_error + ((real \<times> real \<times> real) \<times> Battery \<times> HydrogenStore)" where
  "surplus_branch b s net_kw =
     (case charge b net_kw 1 of
        Inl e \<Rightarrow> Inl e
      | Inr (p_bat_ch, b') \<Rightarrow>
          (let net_after_bat = net_kw - p_bat_ch
           in if net_after_bat > 1 / 1000000 then
                (case electrolyse s net_after_bat 1 of
                   Inl e \<Rightarrow> Inl e
                 | Inr (p_elec, s') \<Rightarrow>
                     (let net_after_elec = net_after_bat - p_elec;
                          p_grid_exp = (if net_after_elec > EPS then net_after_elec else 0)
                      in Inr ((p_bat_ch, p_elec, p_grid_exp), b', s')))
              else
                (let p_grid_exp = (if net_after_bat > EPS then net_after_bat else 0)
                 in Inr ((p_bat_ch, 0, p_grid_exp), b', s))))"

text \<open>
  The deficit branch (lines 214--229), called with \<open>net_kw < 0\<close>: discharge the
  battery, run the fuel cell on what is missing if that exceeds \<open>EPS\<close> and the tank
  holds more than \<open>EPS\<close>, import the rest if it exceeds \<open>EPS\<close>. The result is
  \<open>((p_bat_disch, p_fc_kw, heat_from_fc_kw, p_grid_imp), battery, store)\<close>.
\<close>

definition deficit_branch ::
  "Battery \<Rightarrow> HydrogenStore \<Rightarrow> real \<Rightarrow>
     py_error + ((real \<times> real \<times> real \<times> real) \<times> Battery \<times> HydrogenStore)" where
  "deficit_branch b s net_kw =
     (let deficit_kw = - net_kw
      in case discharge b deficit_kw 1 of
           Inl e \<Rightarrow> Inl e
         | Inr (p_bat_disch, b') \<Rightarrow>
             (let deficit_after_bat = deficit_kw - p_bat_disch
              in if deficit_after_bat > EPS \<and> h2 s > EPS then
                   (case fuel_cell s deficit_after_bat 1 of
                      Inl e \<Rightarrow> Inl e
                    | Inr ((p_fc_kw, heat_from_fc_kw), s') \<Rightarrow>
                        (let deficit_after_fc = deficit_after_bat - p_fc_kw;
                             p_grid_imp = (if deficit_after_fc > EPS then deficit_after_fc else 0)
                         in Inr ((p_bat_disch, p_fc_kw, heat_from_fc_kw, p_grid_imp), b', s')))
                 else
                   (let p_grid_imp = (if deficit_after_bat > EPS then deficit_after_bat else 0)
                    in Inr ((p_bat_disch, 0, 0, p_grid_imp), b', s))))"

text \<open>One record of the log: the fifteen keys of \<^verbatim>\<open>self.logs\<close> (lines 162--169).\<close>

record log_record =
  pv_ac :: real
  load :: real
  net_before :: real
  p_bat_charge :: real
  p_bat_discharge :: real
  soc_bat :: real
  p_elec :: real
  p_fc :: real
  h2_store :: real
  p_grid_export :: real
  p_grid_import :: real
  heat_pump_heat :: real
  heat_from_fc :: real
  heat_total_demand :: real
  hp_electricity :: real

text \<open>
  The body of the loop of \<^verbatim>\<open>run\<close> for one row (lines 186--249): it returns the
  record that \<^verbatim>\<open>_log\<close> appends and the two devices after the hour. The columns are
  read in the order of the source; \<open>dt\<close> is the \<^verbatim>\<open>dt = 1.0\<close> of line 181.
\<close>

definition run_hour ::
  "real SystemParameters \<Rightarrow> row \<Rightarrow> Battery \<Rightarrow> HydrogenStore \<Rightarrow>
     py_error + (log_record \<times> Battery \<times> HydrogenStore)" where
  "run_hour params r b s =
     (let cop_col = HeatPumpType_value (heat_pump_type params); dt = 1
      in case row_get r (pv_column params) of Inl e \<Rightarrow> Inl e | Inr pv \<Rightarrow>
         (case row_get r (space_heat_column params) of Inl e \<Rightarrow> Inl e | Inr q_space \<Rightarrow>
         (case row_get r (dhw_column params) of Inl e \<Rightarrow> Inl e | Inr q_dhw \<Rightarrow>
         (case row_get r cop_col of Inl e \<Rightarrow> Inl e | Inr cop \<Rightarrow>
         (case row_get r (plug_column params) of Inl e \<Rightarrow> Inl e | Inr plug_kw \<Rightarrow>
           (let pv_ac_kw = pv * eta_inv params;
                heat_req = q_space + q_dhw;
                cop_hp = max cop (1 / 10);
                hp_el_kwh = heat_req / cop_hp;
                hp_el_kw = hp_el_kwh / dt;
                load_kw = plug_kw + hp_el_kw;
                net_kw = pv_ac_kw - load_kw
            in if net_kw \<ge> 0 then
                 (case surplus_branch b s net_kw of
                    Inl e \<Rightarrow> Inl e
                  | Inr ((p_bat_ch, p_el, p_grid_exp), b', s') \<Rightarrow>
                      Inr (\<lparr>pv_ac = pv_ac_kw, load = load_kw, net_before = net_kw,
                            p_bat_charge = p_bat_ch, p_bat_discharge = 0, soc_bat = soc b',
                            p_elec = p_el, p_fc = 0, h2_store = h2 s',
                            p_grid_export = p_grid_exp, p_grid_import = 0,
                            heat_pump_heat = heat_req, heat_from_fc = 0 * dt,
                            heat_total_demand = heat_req, hp_electricity = hp_el_kw\<rparr>,
                           b', s'))
               else
                 (case deficit_branch b s net_kw of
                    Inl e \<Rightarrow> Inl e
                  | Inr ((p_bat_disch, p_fc_kw, heat_from_fc_kw, p_grid_imp), b', s') \<Rightarrow>
                      Inr (\<lparr>pv_ac = pv_ac_kw, load = load_kw, net_before = net_kw,
                            p_bat_charge = 0, p_bat_discharge = p_bat_disch, soc_bat = soc b',
                            p_elec = 0, p_fc = p_fc_kw, h2_store = h2 s',
                            p_grid_export = 0, p_grid_import = p_grid_imp,
                            heat_pump_heat = heat_req, heat_from_fc = heat_from_fc_kw * dt,
                            heat_total_demand = heat_req, hp_electricity = hp_el_kw\<rparr>,
                           b', s'))))))))"

text \<open>
  The loop over the rows (line 184), with the devices and the log as explicit state. The
  first error ends the run.
\<close>

fun run_loop ::
  "real SystemParameters \<Rightarrow> row list \<Rightarrow> Battery \<Rightarrow> HydrogenStore \<Rightarrow> log_record list \<Rightarrow>
     py_error + log_record list" where
  "run_loop params [] b s logs = Inr logs"
| "run_loop params (r # rs) b s logs =
     (case run_hour params r b s of
        Inl e \<Rightarrow> Inl e
      | Inr (entry, b', s') \<Rightarrow> run_loop params rs b' s' (logs @ [entry]))"

text \<open>
  \<^verbatim>\<open>MicrogridSimulator(params, df).run()\<close>: the constructor builds a fresh battery and
  hydrogen store from the parameters and an empty log (lines 157--169); the result is
  the log as a table, one record per row.
\<close>

definition MicrogridSimulator_run ::
  "real SystemParameters \<Rightarrow> row list \<Rightarrow> py_error + log_record list" where
  "MicrogridSimulator_run params df =
     run_loop params df (Battery_init params) (HydrogenStore_init params) []"

text \<open>The annual grid balance of the wrap-up (line 253).\<close>

definition annual_balance :: "log_record list \<Rightarrow> real" where
  "annual_balance results = sum_list (map p_grid_export results) - sum_list (map p_grid_import results)"

subsection \<open>Predicates and call sequences used by the statements\<close>

text \<open>
  The invariant of the configuration as section 3 of the specification words it: all
  efficiencies in (0,1], all capacities and limits at least 0, initial states within
  [0, capacity]. The battery's initial state is \<open>soc_bat_init\<close> times its capacity
  (line 102). This predicate follows the specification; the source has no such check.
\<close>

definition spec_config_valid :: "real option SystemParameters \<Rightarrow> bool" where
  "spec_config_valid a \<longleftrightarrow>
     0 < eta_inv a \<and> eta_inv a \<le> 1 \<and>
     0 < eta_bat_roundtrip a \<and> eta_bat_roundtrip a \<le> 1 \<and>
     0 < eta_electrolyser a \<and> eta_electrolyser a \<le> 1 \<and>
     0 < eta_fuel_cell a \<and> eta_fuel_cell a \<le> 1 \<and>
     0 \<le> battery_capacity_kwh a \<and> 0 \<le> h2_capacity_kwh a \<and>
     0 \<le> p_bat_charge_lim (limits a) \<and> 0 \<le> p_bat_discharge_lim (limits a) \<and>
     0 \<le> p_electrolyser (limits a) \<and> 0 \<le> p_fuel_cell (limits a) \<and>
     0 \<le> soc_bat_init a * battery_capacity_kwh a \<and>
     soc_bat_init a * battery_capacity_kwh a \<le> battery_capacity_kwh a \<and>
     (case h2_init_kwh a of None \<Rightarrow> True | Some v \<Rightarrow> 0 \<le> v \<and> v \<le> h2_capacity_kwh a)"

text \<open>The bounds on the two stored energies.\<close>

definition in_bounds :: "Battery \<Rightarrow> HydrogenStore \<Rightarrow> bool" where
  "in_bounds b s \<longleftrightarrow> 0 \<le> soc b \<and> soc b \<le> cap b \<and> 0 \<le> h2 s \<and> h2 s \<le> cap_h2 s"

text \<open>
  The fixed attributes of the two devices within the invariant of the configuration:
  power limits at least 0, efficiencies positive.
\<close>

definition devices_valid :: "Battery \<Rightarrow> HydrogenStore \<Rightarrow> bool" where
  "devices_valid b s \<longleftrightarrow>
     0 \<le> p_charge_max b \<and> 0 \<le> p_discharge_max b \<and> 0 < eta_c b \<and> 0 < eta_d b \<and>
     0 \<le> p_elec_max s \<and> 0 \<le> p_fc_max s \<and> 0 < eta_elec s \<and> 0 < eta_fc s"

text \<open>
  A call of one of the four device methods, with its requested power and its time
  step, and the states a sequence of calls passes through: the state before the first
  call, then the state after each call.
\<close>

datatype device_call =
  Charge real real | Discharge real real | Electrolyse real real | Fuel_cell real real

fun call_power :: "device_call \<Rightarrow> real" where
  "call_power (Charge p dt_h) = p"
| "call_power (Discharge p dt_h) = p"
| "call_power (Electrolyse p dt_h) = p"
| "call_power (Fuel_cell p dt_h) = p"

fun call_dt :: "device_call \<Rightarrow> real" where
  "call_dt (Charge p dt_h) = dt_h"
| "call_dt (Discharge p dt_h) = dt_h"
| "call_dt (Electrolyse p dt_h) = dt_h"
| "call_dt (Fuel_cell p dt_h) = dt_h"

fun apply_call ::
  "device_call \<Rightarrow> Battery \<times> HydrogenStore \<Rightarrow> py_error + (Battery \<times> HydrogenStore)" where
  "apply_call (Charge p dt_h) (b, s) =
     (case charge b p dt_h of Inl e \<Rightarrow> Inl e | Inr (ret, b') \<Rightarrow> Inr (b', s))"
| "apply_call (Discharge p dt_h) (b, s) =
     (case discharge b p dt_h of Inl e \<Rightarrow> Inl e | Inr (ret, b') \<Rightarrow> Inr (b', s))"
| "apply_call (Electrolyse p dt_h) (b, s) =
     (case electrolyse s p dt_h of Inl e \<Rightarrow> Inl e | Inr (ret, s') \<Rightarrow> Inr (b, s'))"
| "apply_call (Fuel_cell p dt_h) (b, s) =
     (case fuel_cell s p dt_h of Inl e \<Rightarrow> Inl e | Inr (ret, s') \<Rightarrow> Inr (b, s'))"

fun call_trace ::
  "device_call list \<Rightarrow> Battery \<times> HydrogenStore \<Rightarrow>
     py_error + (Battery \<times> HydrogenStore) list" where
  "call_trace [] st = Inr [st]"
| "call_trace (c # cs) st =
     (case apply_call c st of
        Inl e \<Rightarrow> Inl e
      | Inr st' \<Rightarrow> (case call_trace cs st' of Inl e \<Rightarrow> Inl e | Inr tr \<Rightarrow> Inr (st # tr)))"

subsection \<open>Concrete configurations and inputs\<close>

text \<open>
  A configuration inside the invariant with lossy devices: round-trip efficiency 1/4
  (so both battery efficiencies are 1/2), electrolyser and fuel cell at 1/2, inverter
  at 1; capacities, limits and initial states are the defaults.
\<close>

definition demo_args :: "real option SystemParameters" where
  "demo_args = SystemParameters_default
     \<lparr>eta_inv := 1, eta_bat_roundtrip := 1 / 4, eta_electrolyser := 1 / 2, eta_fuel_cell := 1 / 2\<rparr>"

definition demo_params :: "real SystemParameters" where
  "demo_params = post_init demo_args"

definition demo_battery :: Battery where
  "demo_battery =
     \<lparr>cap = 82, soc = 41, eta_c = 1 / 2, eta_d = 1 / 2, p_charge_max = 20, p_discharge_max = 20\<rparr>"

definition demo_store :: HydrogenStore where
  "demo_store =
     \<lparr>cap_h2 = 1000, h2 = 500, eta_elec = 1 / 2, eta_fc = 1 / 2, p_elec_max = 10, p_fc_max = 10\<rparr>"

text \<open>A row with the default column names: PV, plug load, space heat, hot water, COP.\<close>

definition demo_row :: "real \<Rightarrow> real \<Rightarrow> real \<Rightarrow> real \<Rightarrow> real \<Rightarrow> row" where
  "demo_row pv plug q_space q_dhw cop =
     [''Solproduktion'' \<mapsto> pv, ''Elforbrug'' \<mapsto> plug, ''Varmeforbrug'' \<mapsto> q_space,
      ''Forbrug varmt brugsvand'' \<mapsto> q_dhw, ''COP_LV'' \<mapsto> cop]"

text \<open>
  Two hours: a surplus of 10 kW, then a deficit of 27 kW (plug load 25 kW and 4 kWh of
  heat at a COP of 2).
\<close>

definition demo_df :: "row list" where
  "demo_df = [demo_row 10 0 0 0 1, demo_row 0 25 3 1 2]"

text \<open>
  Scenario D of the specification: lossless battery of 10 kWh at 5 kWh, tank of 100 kWh
  at 98 kWh, electrolyser efficiency 1/2. A surplus of \<open>9 + x\<close> kW fills the battery
  (5 kW), then the tank (4 kW of electrolyser draw), and \<open>x\<close> kW remains.
\<close>

definition scenario_D_args :: "real option SystemParameters" where
  "scenario_D_args = SystemParameters_default
     \<lparr>eta_inv := 1, eta_bat_roundtrip := 1, eta_electrolyser := 1 / 2,
      battery_capacity_kwh := 10, h2_capacity_kwh := 100, h2_init_kwh := Some 98\<rparr>"

definition scenario_D_params :: "real SystemParameters" where
  "scenario_D_params = post_init scenario_D_args"

text \<open>
  Arguments outside the invariant in all three ways: an efficiency of 0, a negative
  tank capacity, an initial state of charge of twice the battery capacity.
\<close>

definition bad_args :: "real option SystemParameters" where
  "bad_args = SystemParameters_default
     \<lparr>eta_inv := 0, h2_capacity_kwh := - 1, soc_bat_init := 2\<rparr>"

section \<open>Properties of the devices\<close>

subsection \<open>What a call returns when no divisor is zero\<close>

lemma charge_Inr:
  "dt_h \<noteq> 0 \<Longrightarrow> charge b p dt_h =
     Inr (min (min p (p_charge_max b) * dt_h * eta_c b) (cap b - soc b) / dt_h,
          b\<lparr>soc := soc b + min (min p (p_charge_max b) * dt_h * eta_c b) (cap b - soc b)\<rparr>)"
  by (simp add: charge_def Let_def)

lemma discharge_Inr:
  "dt_h \<noteq> 0 \<Longrightarrow> eta_d b \<noteq> 0 \<Longrightarrow> discharge b p dt_h =
     Inr (min (min p (p_discharge_max b) * dt_h / eta_d b) (soc b) * eta_d b / dt_h,
          b\<lparr>soc := soc b - min (min p (p_discharge_max b) * dt_h / eta_d b) (soc b)\<rparr>)"
  by (simp add: discharge_def Let_def)

lemma electrolyse_Inr:
  "dt_h \<noteq> 0 \<Longrightarrow> eta_elec s \<noteq> 0 \<Longrightarrow> electrolyse s p dt_h =
     Inr (min (min p (p_elec_max s) * dt_h * eta_elec s) (cap_h2 s - h2 s) / (eta_elec s * dt_h),
          s\<lparr>h2 := h2 s + min (min p (p_elec_max s) * dt_h * eta_elec s) (cap_h2 s - h2 s)\<rparr>)"
  by (simp add: electrolyse_def Let_def)

lemma fuel_cell_Inr:
  "dt_h \<noteq> 0 \<Longrightarrow> eta_fc s \<noteq> 0 \<Longrightarrow> fuel_cell s p dt_h =
     Inr ((min (min p (p_fc_max s) * dt_h / eta_fc s) (h2 s) * eta_fc s / dt_h,
           (min (min p (p_fc_max s) * dt_h / eta_fc s) (h2 s)
              - min (min p (p_fc_max s) * dt_h / eta_fc s) (h2 s) * eta_fc s / dt_h * dt_h) / dt_h),
          s\<lparr>h2 := h2 s - min (min p (p_fc_max s) * dt_h / eta_fc s) (h2 s)\<rparr>)"
  by (simp add: fuel_cell_def Let_def)

text \<open>The energy a request asks for is not negative when the request is not.\<close>

lemma clamped_energy_nonneg:
  fixes p pmax dt_h eta :: real
  assumes "0 \<le> p" "0 \<le> pmax" "0 < dt_h" "0 < eta"
  shows "0 \<le> min p pmax * dt_h * eta" and "0 \<le> min p pmax * dt_h / eta"
  using assms by simp_all

subsection \<open>The electrolyser\<close>

text \<open>
  Claim C7. For every requested power and every time step greater than 0, on a store
  whose electrolyser efficiency is not zero, \<open>electrolyse\<close> returns, and the power it
  returns times the electrolyser efficiency times the time step equals the increase of
  the tank level, which is the requested energy clamped to the power limit, converted at
  the efficiency and clamped to the headroom of the tank. The equation therefore holds
  also when the headroom clamps the increase.
\<close>

theorem electrolyse_reverses_efficiency:
  assumes "0 < dt_h" and "eta_elec s \<noteq> 0"
  shows "\<exists>p_ret s'. electrolyse s p_kw dt_h = Inr (p_ret, s')
           \<and> p_ret * eta_elec s * dt_h = h2 s' - h2 s
           \<and> h2 s' - h2 s = min (min p_kw (p_elec_max s) * dt_h * eta_elec s) (cap_h2 s - h2 s)"
  using assms by (simp add: electrolyse_Inr)

text \<open>
  A request of 7 kW for one hour on a tank 2 kWh short of full, at efficiency 1/2: the
  headroom clamps the increase to 2 kWh and 4 kW are returned.
\<close>

theorem electrolyse_reverses_efficiency_witness:
  "(0::real) < 1 \<and> eta_elec demo_store \<noteq> 0
   \<and> electrolyse (demo_store\<lparr>h2 := 998\<rparr>) 7 1 = Inr (4, demo_store\<lparr>h2 := 1000\<rparr>)
   \<and> (4::real) * eta_elec demo_store * 1 = 1000 - 998"
  using electrolyse_reverses_efficiency [of 1 "demo_store\<lparr>h2 := 998\<rparr>" 7]
  by (simp add: demo_store_def electrolyse_Inr)

subsection \<open>The fuel cell\<close>

text \<open>
  Claim C8, as stated, fails for a negative requested power: at efficiency 1/2 a
  request of -1 kW returns a waste heat of -1 kW (and raises the tank level).
\<close>

theorem fuel_cell_negative_request_counterexample:
  "eta_fc demo_store \<le> 1
   \<and> fuel_cell demo_store (- 1) 1 = Inr ((- 1, - 1), demo_store\<lparr>h2 := 502\<rparr>)
   \<and> \<not> (0::real) \<le> - 1"
  by (simp add: demo_store_def fuel_cell_Inr)

text \<open>
  Claim C8, amended. For every requested power and every time step greater than 0, on a
  store whose fuel-cell efficiency is not zero, \<open>fuel_cell\<close> returns a pair (delivered
  electrical power, waste heat) in which the waste heat equals (chemical energy taken
  from the tank - delivered electrical energy) / dt; the waste heat is at least 0
  whenever the requested power, the power limit and the tank level are not negative
  and the efficiency lies in (0,1].
\<close>

theorem fuel_cell_waste_heat:
  assumes "0 < dt_h" and "eta_fc s \<noteq> 0"
  shows "\<exists>p_ac p_heat s'. fuel_cell s p_kw dt_h = Inr ((p_ac, p_heat), s')
           \<and> p_heat = ((h2 s - h2 s') - p_ac * dt_h) / dt_h
           \<and> (0 \<le> p_kw \<and> 0 \<le> p_fc_max s \<and> 0 \<le> h2 s \<and> 0 < eta_fc s \<and> eta_fc s \<le> 1
                \<longrightarrow> 0 \<le> p_heat)"
proof -
  let ?e = "min (min p_kw (p_fc_max s) * dt_h / eta_fc s) (h2 s)"
  have eq: "fuel_cell s p_kw dt_h =
      Inr ((?e * eta_fc s / dt_h, (?e - ?e * eta_fc s / dt_h * dt_h) / dt_h), s\<lparr>h2 := h2 s - ?e\<rparr>)"
    using assms by (simp add: fuel_cell_Inr)
  have heat: "(?e - ?e * eta_fc s / dt_h * dt_h) / dt_h = ?e * (1 - eta_fc s) / dt_h"
    using assms by (simp add: algebra_simps)
  have nonneg: "0 \<le> ?e * (1 - eta_fc s) / dt_h"
    if "0 \<le> p_kw" "0 \<le> p_fc_max s" "0 \<le> h2 s" "0 < eta_fc s" "eta_fc s \<le> 1"
  proof -
    have "0 \<le> ?e"
      using that assms clamped_energy_nonneg(2) [of p_kw "p_fc_max s" dt_h "eta_fc s"] by simp
    then show ?thesis using that assms by simp
  qed
  show ?thesis
  proof (intro exI conjI impI)
    show "fuel_cell s p_kw dt_h =
      Inr ((?e * eta_fc s / dt_h, (?e - ?e * eta_fc s / dt_h * dt_h) / dt_h), s\<lparr>h2 := h2 s - ?e\<rparr>)"
      by (rule eq)
    show "(?e - ?e * eta_fc s / dt_h * dt_h) / dt_h =
      ((h2 s - h2 (s\<lparr>h2 := h2 s - ?e\<rparr>)) - ?e * eta_fc s / dt_h * dt_h) / dt_h"
      by simp
    assume "0 \<le> p_kw \<and> 0 \<le> p_fc_max s \<and> 0 \<le> h2 s \<and> 0 < eta_fc s \<and> eta_fc s \<le> 1"
    then have "0 \<le> ?e * (1 - eta_fc s) / dt_h"
      using nonneg by blast
    then show "0 \<le> (?e - ?e * eta_fc s / dt_h * dt_h) / dt_h"
      by (simp only: heat)
  qed
qed

text \<open>
  A request of 7 kW for one hour at efficiency 1/2: 14 kWh leave the tank, 7 kW are
  delivered and 7 kW are waste heat.
\<close>

theorem fuel_cell_waste_heat_witness:
  "(0::real) < 1 \<and> eta_fc demo_store \<noteq> 0
   \<and> fuel_cell demo_store 7 1 = Inr ((7, 7), demo_store\<lparr>h2 := 486\<rparr>)
   \<and> (7::real) = ((500 - 486) - 7 * 1) / 1 \<and> (0::real) \<le> 7"
  using fuel_cell_waste_heat [of 1 demo_store 7]
  by (simp add: demo_store_def fuel_cell_Inr)

subsection \<open>Charging the battery\<close>

text \<open>
  Claim C3, as stated, fails for a negative requested power: on the demo battery
  (charge efficiency 1/2) a request of -10 kW for one hour returns -5 kW and lowers the
  state of charge.
\<close>

theorem charge_negative_request_counterexample:
  "(0::real) < 1 \<and> 0 \<le> soc demo_battery \<and> soc demo_battery \<le> cap demo_battery
   \<and> charge demo_battery (- 10) 1 = Inr (- 5, demo_battery\<lparr>soc := 36\<rparr>)
   \<and> \<not> (0::real) \<le> - 5"
  by (simp add: demo_battery_def charge_Inr)

text \<open>
  Claim C3, amended. For every requested power that is not negative and every time step
  greater than 0, on a battery whose state of charge does not exceed its capacity, whose
  charge power limit is not negative and whose charge efficiency lies in [0,1],
  \<open>charge\<close> returns; it changes the state of charge only, by the requested power clamped
  to the charge power limit, converted to energy over the time step, multiplied by the
  charge efficiency and clamped to the headroom; the returned power is never negative
  and never exceeds the charge power limit.
\<close>

theorem charge_clamps_and_bounds:
  assumes "0 < dt_h" and "0 \<le> p_requested_kw"
    and "0 \<le> p_charge_max b" and "0 \<le> eta_c b" and "eta_c b \<le> 1" and "soc b \<le> cap b"
  shows "\<exists>p_ret b'. charge b p_requested_kw dt_h = Inr (p_ret, b')
           \<and> b' = b\<lparr>soc := soc b'\<rparr>
           \<and> soc b' - soc b =
               min (min p_requested_kw (p_charge_max b) * dt_h * eta_c b) (cap b - soc b)
           \<and> 0 \<le> p_ret \<and> p_ret \<le> p_charge_max b"
proof -
  let ?p = "min p_requested_kw (p_charge_max b)"
  let ?e = "min (?p * dt_h * eta_c b) (cap b - soc b)"
  have eq: "charge b p_requested_kw dt_h = Inr (?e / dt_h, b\<lparr>soc := soc b + ?e\<rparr>)"
    using assms(1) by (simp add: charge_Inr)
  have p0: "0 \<le> ?p" using assms by simp
  have e0: "0 \<le> ?e"
    using p0 assms by simp
  have "?p * eta_c b \<le> ?p * 1"
    using mult_left_mono [OF assms(5) p0] by simp
  then have "?p * dt_h * eta_c b \<le> p_charge_max b * dt_h"
    using assms(1) by (simp add: mult.commute mult.left_commute)
  then have "?e \<le> p_charge_max b * dt_h" by simp
  then have up: "?e / dt_h \<le> p_charge_max b"
    using assms(1) by (simp add: pos_divide_le_eq)
  have lo: "0 \<le> ?e / dt_h" using e0 assms(1) by simp
  show ?thesis
  proof (intro exI conjI)
    show "charge b p_requested_kw dt_h = Inr (?e / dt_h, b\<lparr>soc := soc b + ?e\<rparr>)" by (rule eq)
    show "b\<lparr>soc := soc b + ?e\<rparr> = b\<lparr>soc := soc (b\<lparr>soc := soc b + ?e\<rparr>)\<rparr>" by simp
    show "soc (b\<lparr>soc := soc b + ?e\<rparr>) - soc b = ?e" by simp
    show "0 \<le> ?e / dt_h" by (rule lo)
    show "?e / dt_h \<le> p_charge_max b" by (rule up)
  qed
qed

text \<open>
  A request of 30 kW for one hour on the demo battery: clamped to 20 kW, 10 kWh are
  stored and 10 kW are returned.
\<close>

theorem charge_clamps_and_bounds_witness:
  "(0::real) < 1 \<and> (0::real) \<le> 30 \<and> 0 \<le> p_charge_max demo_battery
   \<and> 0 \<le> eta_c demo_battery \<and> eta_c demo_battery \<le> 1 \<and> soc demo_battery \<le> cap demo_battery
   \<and> charge demo_battery 30 1 = Inr (10, demo_battery\<lparr>soc := 51\<rparr>)
   \<and> (0::real) \<le> 10 \<and> (10::real) \<le> p_charge_max demo_battery"
  using charge_clamps_and_bounds [of 1 30 demo_battery]
  by (simp add: demo_battery_def charge_Inr)

subsection \<open>One charge and discharge cycle\<close>

text \<open>The demo configuration builds the demo devices.\<close>

lemma sqrt_quarter: "sqrt (1 / 4) = 1 / 2"
  by (simp add: real_sqrt_divide)

lemma demo_battery_init: "Battery_init demo_params = demo_battery"
  by (simp add: Battery_init_def demo_params_def demo_args_def post_init_def
      SystemParameters_default_def ComponentLimits_default_def charge_eff_def discharge_eff_def
      demo_battery_def sqrt_quarter)

lemma demo_store_init: "HydrogenStore_init demo_params = demo_store"
  by (simp add: HydrogenStore_init_def demo_params_def demo_args_def post_init_def
      SystemParameters_default_def ComponentLimits_default_def demo_store_def)

text \<open>
  Claim C9. The charge and the discharge efficiency of the battery built from the
  parameters are each the square root of the configured round-trip efficiency (taken
  positive). For an empty battery with enough headroom and power limits, charging an AC
  energy \<open>E\<close> (a request of \<open>E / dt\<close> over \<open>dt\<close>) and then discharging with a request
  that covers the whole stored amount empties the battery and delivers exactly the
  round-trip efficiency times \<open>E\<close>: the cycle loses (1 - round-trip efficiency) of \<open>E\<close>.
\<close>

theorem battery_round_trip:
  assumes rt: "0 < eta_bat_roundtrip params"
    and empty: "soc_bat_init params = 0"
    and dt: "0 < dt_c" "0 < dt_d"
    and limit: "E / dt_c \<le> p_bat_charge_lim (limits params)"
    and headroom: "E * sqrt (eta_bat_roundtrip params) \<le> battery_capacity_kwh params"
    and request: "eta_bat_roundtrip params * E
                    \<le> min p_req (p_bat_discharge_lim (limits params)) * dt_d"
  shows "eta_c (Battery_init params) = sqrt (eta_bat_roundtrip params)
       \<and> eta_d (Battery_init params) = sqrt (eta_bat_roundtrip params)
       \<and> (\<exists>p_abs b1 p_del b2.
             charge (Battery_init params) (E / dt_c) dt_c = Inr (p_abs, b1)
           \<and> discharge b1 p_req dt_d = Inr (p_del, b2)
           \<and> soc b2 = 0
           \<and> p_del * dt_d = eta_bat_roundtrip params * E
           \<and> E - p_del * dt_d = (1 - eta_bat_roundtrip params) * E)"
proof -
  let ?rt = "eta_bat_roundtrip params"
  let ?b = "Battery_init params"
  let ?q = "sqrt ?rt"
  have q: "0 < ?q" using rt by simp
  have qq: "?q * ?q = ?rt" using rt by simp
  have fields: "eta_c ?b = ?q" "eta_d ?b = ?q" "soc ?b = 0"
    "cap ?b = battery_capacity_kwh params"
    "p_charge_max ?b = p_bat_charge_lim (limits params)"
    "p_discharge_max ?b = p_bat_discharge_lim (limits params)"
    using empty by (simp_all add: Battery_init_def charge_eff_def discharge_eff_def)
  have pc: "min (E / dt_c) (p_bat_charge_lim (limits params)) = E / dt_c"
    using limit by simp
  have stored: "min (min (E / dt_c) (p_charge_max ?b) * dt_c * eta_c ?b) (cap ?b - soc ?b) = E * ?q"
    using dt headroom by (simp add: fields pc)
  let ?b1 = "?b\<lparr>soc := E * ?q\<rparr>"
  have ch: "charge ?b (E / dt_c) dt_c = Inr (E * ?q / dt_c, ?b1)"
  proof -
    have "dt_c \<noteq> 0" using dt(1) by simp
    from charge_Inr [OF this, of ?b "E / dt_c"] show ?thesis
      unfolding stored by (simp add: fields(3))
  qed
  let ?pd = "min p_req (p_discharge_max ?b1)"
  have "?rt * E / ?q = E * ?q"
    using q qq by (simp add: field_simps)
  moreover have "?rt * E / ?q \<le> ?pd * dt_d / ?q"
    using request q fields by (simp add: divide_right_mono)
  ultimately have "E * ?q \<le> ?pd * dt_d / eta_d ?b1"
    using fields by simp
  then have avail: "min (?pd * dt_d / eta_d ?b1) (soc ?b1) = E * ?q"
    by simp
  have "discharge ?b1 p_req dt_d =
      Inr (min (?pd * dt_d / eta_d ?b1) (soc ?b1) * eta_d ?b1 / dt_d,
           ?b1\<lparr>soc := soc ?b1 - min (?pd * dt_d / eta_d ?b1) (soc ?b1)\<rparr>)"
    using dt(2) q fields by (intro discharge_Inr) simp_all
  then have dis: "discharge ?b1 p_req dt_d = Inr (E * ?q * ?q / dt_d, ?b1\<lparr>soc := 0\<rparr>)"
    unfolding avail using fields by simp
  have del: "E * ?q * ?q / dt_d * dt_d = ?rt * E"
    using dt(2) qq by (simp add: mult.assoc mult.commute)
  show ?thesis
  proof (intro conjI exI)
    show "eta_c ?b = ?q" "eta_d ?b = ?q" by (rule fields)+
    show "charge ?b (E / dt_c) dt_c = Inr (E * ?q / dt_c, ?b1)" by (rule ch)
    show "discharge ?b1 p_req dt_d = Inr (E * ?q * ?q / dt_d, ?b1\<lparr>soc := 0\<rparr>)" by (rule dis)
    show "soc (?b1\<lparr>soc := 0\<rparr>) = 0" by simp
    show "E * ?q * ?q / dt_d * dt_d = ?rt * E" by (rule del)
    show "E - E * ?q * ?q / dt_d * dt_d = (1 - ?rt) * E"
      by (simp only: del) (simp add: algebra_simps)
  qed
qed


text \<open>
  At round-trip efficiency 1/4: 8 kWh offered, 4 kWh stored, 2 kWh delivered.
\<close>

lemma demo_battery_empty_init:
  "Battery_init (demo_params\<lparr>soc_bat_init := 0\<rparr>) = demo_battery\<lparr>soc := 0\<rparr>"
  by (simp add: Battery_init_def demo_params_def demo_args_def post_init_def
      SystemParameters_default_def ComponentLimits_default_def charge_eff_def discharge_eff_def
      demo_battery_def sqrt_quarter)

theorem battery_round_trip_witness:
  "0 < eta_bat_roundtrip (demo_params\<lparr>soc_bat_init := 0\<rparr>)
   \<and> soc_bat_init (demo_params\<lparr>soc_bat_init := 0\<rparr>) = 0
   \<and> eta_c (Battery_init (demo_params\<lparr>soc_bat_init := 0\<rparr>)) = 1 / 2
   \<and> eta_d (Battery_init (demo_params\<lparr>soc_bat_init := 0\<rparr>)) = 1 / 2
   \<and> charge (Battery_init (demo_params\<lparr>soc_bat_init := 0\<rparr>)) (8 / 1) 1
        = Inr (4, demo_battery\<lparr>soc := 4\<rparr>)
   \<and> discharge (demo_battery\<lparr>soc := 4\<rparr>) 20 1 = Inr (2, demo_battery\<lparr>soc := 0\<rparr>)
   \<and> (2::real) * 1 = eta_bat_roundtrip (demo_params\<lparr>soc_bat_init := 0\<rparr>) * 8"
  using battery_round_trip [of "demo_params\<lparr>soc_bat_init := 0\<rparr>" 1 1 8 20]
  by (simp add: demo_battery_empty_init)
     (simp add: demo_battery_def charge_Inr discharge_Inr demo_params_def demo_args_def
        post_init_def SystemParameters_default_def)

subsection \<open>The bounds on the stored energies\<close>

text \<open>
  One call with a request that is not negative and a positive time step returns and
  keeps the bounds; it changes neither limits nor efficiencies.
\<close>

lemma apply_call_preserves:
  assumes "in_bounds b s" and "devices_valid b s"
    and "0 \<le> call_power c" and "0 < call_dt c"
  shows "\<exists>b' s'. apply_call c (b, s) = Inr (b', s') \<and> in_bounds b' s' \<and> devices_valid b' s'"
proof (cases c)
  case (Charge p dt_h)
  define e where "e = min (min p (p_charge_max b) * dt_h * eta_c b) (cap b - soc b)"
  have "0 \<le> min p (p_charge_max b) * dt_h * eta_c b"
    using assms Charge clamped_energy_nonneg(1) [of p "p_charge_max b" dt_h "eta_c b"]
    by (simp add: devices_valid_def)
  then have e: "0 \<le> e" "e \<le> cap b - soc b"
    using assms(1) by (simp_all add: in_bounds_def e_def)
  have "charge b p dt_h = Inr (e / dt_h, b\<lparr>soc := soc b + e\<rparr>)"
    unfolding e_def using assms(4) Charge by (simp add: charge_Inr)
  then show ?thesis
    using e assms(1,2) Charge by (simp add: in_bounds_def devices_valid_def)
next
  case (Discharge p dt_h)
  define e where "e = min (min p (p_discharge_max b) * dt_h / eta_d b) (soc b)"
  have "0 \<le> min p (p_discharge_max b) * dt_h / eta_d b"
    using assms Discharge clamped_energy_nonneg(2) [of p "p_discharge_max b" dt_h "eta_d b"]
    by (simp add: devices_valid_def)
  then have e: "0 \<le> e" "e \<le> soc b"
    using assms(1) by (simp_all add: in_bounds_def e_def)
  have "discharge b p dt_h = Inr (e * eta_d b / dt_h, b\<lparr>soc := soc b - e\<rparr>)"
    unfolding e_def using assms(2,4) Discharge by (simp add: discharge_Inr devices_valid_def)
  then show ?thesis
    using e assms(1,2) Discharge by (simp add: in_bounds_def devices_valid_def)
next
  case (Electrolyse p dt_h)
  define e where "e = min (min p (p_elec_max s) * dt_h * eta_elec s) (cap_h2 s - h2 s)"
  have "0 \<le> min p (p_elec_max s) * dt_h * eta_elec s"
    using assms Electrolyse clamped_energy_nonneg(1) [of p "p_elec_max s" dt_h "eta_elec s"]
    by (simp add: devices_valid_def)
  then have e: "0 \<le> e" "e \<le> cap_h2 s - h2 s"
    using assms(1) by (simp_all add: in_bounds_def e_def)
  have "electrolyse s p dt_h = Inr (e / (eta_elec s * dt_h), s\<lparr>h2 := h2 s + e\<rparr>)"
    unfolding e_def using assms(2,4) Electrolyse by (simp add: electrolyse_Inr devices_valid_def)
  then show ?thesis
    using e assms(1,2) Electrolyse by (simp add: in_bounds_def devices_valid_def)
next
  case (Fuel_cell p dt_h)
  define e where "e = min (min p (p_fc_max s) * dt_h / eta_fc s) (h2 s)"
  have "0 \<le> min p (p_fc_max s) * dt_h / eta_fc s"
    using assms Fuel_cell clamped_energy_nonneg(2) [of p "p_fc_max s" dt_h "eta_fc s"]
    by (simp add: devices_valid_def)
  then have e: "0 \<le> e" "e \<le> h2 s"
    using assms(1) by (simp_all add: in_bounds_def e_def)
  have "fuel_cell s p dt_h =
      Inr ((e * eta_fc s / dt_h, (e - e * eta_fc s / dt_h * dt_h) / dt_h), s\<lparr>h2 := h2 s - e\<rparr>)"
    unfolding e_def using assms(2,4) Fuel_cell by (simp add: fuel_cell_Inr devices_valid_def)
  then show ?thesis
    using e assms(1,2) Fuel_cell by (simp add: in_bounds_def devices_valid_def)
qed

text \<open>
  Claim C2, as stated, fails for a negative requested power: from the demo devices,
  which are within bounds, the single call \<open>charge(-100, 1)\<close> leaves the state of charge
  at -9 kWh.
\<close>

theorem bounds_negative_request_counterexample:
  "in_bounds demo_battery demo_store \<and> devices_valid demo_battery demo_store
   \<and> call_trace [Charge (- 100) 1] (demo_battery, demo_store)
       = Inr [(demo_battery, demo_store), (demo_battery\<lparr>soc := - 9\<rparr>, demo_store)]
   \<and> \<not> in_bounds (demo_battery\<lparr>soc := - 9\<rparr>) demo_store"
  by (simp add: in_bounds_def devices_valid_def demo_battery_def demo_store_def charge_Inr)

text \<open>
  Claim C2, amended. For every sequence of \<open>charge\<close>, \<open>discharge\<close>, \<open>electrolyse\<close> and
  \<open>fuel_cell\<close> calls whose requested powers are not negative and whose time steps are
  positive, on devices with power limits of at least 0 and positive efficiencies,
  starting from a state within bounds: every call returns, and at every call boundary
  the state of charge lies between 0 and the battery capacity and the hydrogen level
  between 0 and the tank capacity.
\<close>

theorem bounds_at_every_call_boundary:
  assumes "in_bounds b s" and "devices_valid b s"
    and "\<forall>c \<in> set cs. 0 \<le> call_power c \<and> 0 < call_dt c"
  shows "\<exists>tr. call_trace cs (b, s) = Inr tr \<and> length tr = Suc (length cs)
           \<and> (\<forall>(b', s') \<in> set tr. in_bounds b' s')"
  using assms
proof (induction cs arbitrary: b s)
  case Nil
  then show ?case by simp
next
  case (Cons c cs)
  then obtain b' s' where step: "apply_call c (b, s) = Inr (b', s')"
      "in_bounds b' s'" "devices_valid b' s'"
    using apply_call_preserves [of b s c] by auto
  from Cons.IH [OF step(2,3)] Cons.prems(3)
  obtain tr where tr: "call_trace cs (b', s') = Inr tr" "length tr = Suc (length cs)"
      "\<forall>(b', s') \<in> set tr. in_bounds b' s'"
    by auto
  show ?case
    using step(1) tr Cons.prems(1) by simp
qed

text \<open>Four calls on the demo devices, one of each kind, with the states they pass through.\<close>

theorem bounds_at_every_call_boundary_witness:
  "in_bounds demo_battery demo_store \<and> devices_valid demo_battery demo_store
   \<and> call_trace [Charge 30 1, Fuel_cell 7 1, Discharge 30 1, Electrolyse 4 1]
        (demo_battery, demo_store)
       = Inr [(demo_battery, demo_store),
              (demo_battery\<lparr>soc := 51\<rparr>, demo_store),
              (demo_battery\<lparr>soc := 51\<rparr>, demo_store\<lparr>h2 := 486\<rparr>),
              (demo_battery\<lparr>soc := 11\<rparr>, demo_store\<lparr>h2 := 486\<rparr>),
              (demo_battery\<lparr>soc := 11\<rparr>, demo_store\<lparr>h2 := 488\<rparr>)]
   \<and> in_bounds (demo_battery\<lparr>soc := 11\<rparr>) (demo_store\<lparr>h2 := 488\<rparr>)"
  using bounds_at_every_call_boundary
    [of demo_battery demo_store "[Charge 30 1, Fuel_cell 7 1, Discharge 30 1, Electrolyse 4 1]"]
  by (simp add: in_bounds_def devices_valid_def demo_battery_def demo_store_def
      charge_Inr discharge_Inr electrolyse_Inr fuel_cell_Inr)

section \<open>Properties of the configuration\<close>

text \<open>
  Claim C4, as stated, fails: constructing the parameters with an inverter efficiency
  of 0, a tank capacity of -1 kWh and an initial state of charge of twice the battery
  capacity succeeds. The values are stored as given; the battery built from them starts
  at 164 kWh with a capacity of 82 kWh.
\<close>

theorem construction_accepts_invalid_counterexample:
  "\<not> spec_config_valid bad_args
   \<and> SystemParameters_new bad_args = Inr (post_init bad_args)
   \<and> eta_inv (post_init bad_args) = 0
   \<and> h2_capacity_kwh (post_init bad_args) = - 1
   \<and> h2_init_kwh (post_init bad_args) = - 1 / 2
   \<and> soc (Battery_init (post_init bad_args)) = 164
   \<and> cap (Battery_init (post_init bad_args)) = 82"
  by (simp add: spec_config_valid_def bad_args_def SystemParameters_new_def post_init_def
      SystemParameters_default_def Battery_init_def)

text \<open>
  Claim C4, amended. Constructing the configuration never fails on account of its
  numbers: for all efficiencies, capacities, power limits and initial states the
  constructor returns an object that holds them unchanged, so no value is clamped into
  range and none is rejected. The only value it computes is the initial hydrogen level,
  half the tank capacity when the argument is \<open>None\<close>.
\<close>

theorem construction_never_fails:
  "\<exists>params. SystemParameters_new a = Inr params
     \<and> eta_inv params = eta_inv a
     \<and> eta_bat_roundtrip params = eta_bat_roundtrip a
     \<and> eta_electrolyser params = eta_electrolyser a
     \<and> eta_fuel_cell params = eta_fuel_cell a
     \<and> battery_capacity_kwh params = battery_capacity_kwh a
     \<and> h2_capacity_kwh params = h2_capacity_kwh a
     \<and> soc_bat_init params = soc_bat_init a
     \<and> limits params = limits a
     \<and> h2_init_kwh params =
         (case h2_init_kwh a of None \<Rightarrow> (1 / 2) * h2_capacity_kwh a | Some v \<Rightarrow> v)"
  by (simp add: SystemParameters_new_def post_init_def)

section \<open>Properties of the simulator\<close>

subsection \<open>The demo run\<close>

text \<open>The two hours of the demo data frame, evaluated.\<close>

lemma demo_params_fields:
  "pv_column demo_params = ''Solproduktion''"
  "plug_column demo_params = ''Elforbrug''"
  "space_heat_column demo_params = ''Varmeforbrug''"
  "dhw_column demo_params = ''Forbrug varmt brugsvand''"
  "heat_pump_type demo_params = LV"
  "eta_inv demo_params = 1"
  by (simp_all add: demo_params_def demo_args_def post_init_def SystemParameters_default_def)

lemma demo_row_get:
  "row_get (demo_row pv plug q_space q_dhw cop) ''Solproduktion'' = Inr pv"
  "row_get (demo_row pv plug q_space q_dhw cop) ''Elforbrug'' = Inr plug"
  "row_get (demo_row pv plug q_space q_dhw cop) ''Varmeforbrug'' = Inr q_space"
  "row_get (demo_row pv plug q_space q_dhw cop) ''Forbrug varmt brugsvand'' = Inr q_dhw"
  "row_get (demo_row pv plug q_space q_dhw cop) ''COP_LV'' = Inr cop"
  by (simp_all add: row_get_def demo_row_def)

lemma demo_surplus_hour:
  "run_hour demo_params (demo_row 10 0 0 0 1) demo_battery demo_store =
     Inr (\<lparr>pv_ac = 10, load = 0, net_before = 10,
           p_bat_charge = 5, p_bat_discharge = 0, soc_bat = 46,
           p_elec = 5, p_fc = 0, h2_store = 1005 / 2,
           p_grid_export = 0, p_grid_import = 0,
           heat_pump_heat = 0, heat_from_fc = 0,
           heat_total_demand = 0, hp_electricity = 0\<rparr>,
          demo_battery\<lparr>soc := 46\<rparr>, demo_store\<lparr>h2 := 1005 / 2\<rparr>)"
  by (simp add: run_hour_def demo_params_fields demo_row_get surplus_branch_def
      charge_Inr electrolyse_Inr demo_battery_def demo_store_def EPS_def Let_def)

lemma demo_deficit_hour:
  "run_hour demo_params (demo_row 0 25 3 1 2)
       (demo_battery\<lparr>soc := 46\<rparr>) (demo_store\<lparr>h2 := 1005 / 2\<rparr>) =
     Inr (\<lparr>pv_ac = 0, load = 27, net_before = - 27,
           p_bat_charge = 0, p_bat_discharge = 20, soc_bat = 6,
           p_elec = 0, p_fc = 7, h2_store = 977 / 2,
           p_grid_export = 0, p_grid_import = 0,
           heat_pump_heat = 4, heat_from_fc = 7,
           heat_total_demand = 4, hp_electricity = 2\<rparr>,
          demo_battery\<lparr>soc := 6\<rparr>, demo_store\<lparr>h2 := 977 / 2\<rparr>)"
  by (simp add: run_hour_def demo_params_fields demo_row_get deficit_branch_def
      discharge_Inr fuel_cell_Inr demo_battery_def demo_store_def EPS_def Let_def)


lemma demo_run:
  "MicrogridSimulator_run demo_params demo_df =
     Inr [\<lparr>pv_ac = 10, load = 0, net_before = 10,
            p_bat_charge = 5, p_bat_discharge = 0, soc_bat = 46,
            p_elec = 5, p_fc = 0, h2_store = 1005 / 2,
            p_grid_export = 0, p_grid_import = 0,
            heat_pump_heat = 0, heat_from_fc = 0,
            heat_total_demand = 0, hp_electricity = 0\<rparr>,
          \<lparr>pv_ac = 0, load = 27, net_before = - 27,
            p_bat_charge = 0, p_bat_discharge = 20, soc_bat = 6,
            p_elec = 0, p_fc = 7, h2_store = 977 / 2,
            p_grid_export = 0, p_grid_import = 0,
            heat_pump_heat = 4, heat_from_fc = 7,
            heat_total_demand = 4, hp_electricity = 2\<rparr>]"
  by (simp add: MicrogridSimulator_run_def demo_df_def demo_battery_init demo_store_init
      demo_surplus_hour demo_deficit_hour)

text \<open>The two shapes of a record that an hour logs.\<close>

lemma run_hour_cases:
  assumes "run_hour params r b s = Inr (entry, b', s')"
  obtains
    (surplus) ch el ex where
      "0 \<le> net_before entry"
      "surplus_branch b s (net_before entry) = Inr ((ch, el, ex), b', s')"
      "p_bat_charge entry = ch" "p_elec entry = el" "p_grid_export entry = ex"
      "p_bat_discharge entry = 0" "p_fc entry = 0" "p_grid_import entry = 0"
      "heat_from_fc entry = 0"
  | (deficit) di fc hf im where
      "net_before entry < 0"
      "deficit_branch b s (net_before entry) = Inr ((di, fc, hf, im), b', s')"
      "p_bat_discharge entry = di" "p_fc entry = fc" "heat_from_fc entry = hf"
      "p_grid_import entry = im"
      "p_bat_charge entry = 0" "p_elec entry = 0" "p_grid_export entry = 0"
  using assms
  by (auto simp: run_hour_def Let_def split: sum.splits prod.splits if_splits)

lemma run_hour_common:
  assumes "run_hour params r b s = Inr (entry, b', s')"
  shows "net_before entry = pv_ac entry - load entry"
    and "soc_bat entry = soc b'" and "h2_store entry = h2 s'"
    and "\<exists>q_space q_dhw. r (space_heat_column params) = Some q_space
           \<and> r (dhw_column params) = Some q_dhw
           \<and> heat_pump_heat entry = q_space + q_dhw
           \<and> heat_total_demand entry = q_space + q_dhw"
  using assms
  by (auto simp: run_hour_def row_get_def Let_def
      split: sum.splits prod.splits if_splits option.splits)


text \<open>A property that every hour establishes holds for every record of the log.\<close>

subsection \<open>From one hour to the whole log\<close>

lemma run_loop_rows:
  assumes "run_loop params rs b s acc = Inr out"
    and step: "\<And>r b s e b' s'. run_hour params r b s = Inr (e, b', s') \<Longrightarrow> Q r e"
  shows "\<exists>es. out = acc @ es \<and> list_all2 Q rs es"
  using assms(1)
proof (induction rs arbitrary: b s acc)
  case Nil
  then show ?case by simp
next
  case (Cons r rs)
  from Cons.prems obtain e b' s' where
    h: "run_hour params r b s = Inr (e, b', s')"
    and rest: "run_loop params rs b' s' (acc @ [e]) = Inr out"
    by (auto split: sum.splits)
  from Cons.IH [OF rest] obtain es where "out = (acc @ [e]) @ es" "list_all2 Q rs es"
    by blast
  then have "out = acc @ (e # es)" "list_all2 Q (r # rs) (e # es)"
    using step [OF h] by simp_all
  then show ?case by blast
qed

lemma run_rows:
  assumes "MicrogridSimulator_run params df = Inr logs"
    and "\<And>r b s e b' s'. run_hour params r b s = Inr (e, b', s') \<Longrightarrow> Q r e"
  shows "list_all2 Q df logs"
  using run_loop_rows [OF assms(1) [unfolded MicrogridSimulator_run_def], of Q] assms(2)
  by auto

subsection \<open>One direction per storage device and hour\<close>

text \<open>
  Claim C6. For every hour of every run that returns its log: a logged battery charge
  greater than 0 implies a logged battery discharge of 0 and the other way round, and a
  logged electrolyser power greater than 0 implies a logged fuel-cell power of 0 and the
  other way round.
\<close>

theorem one_direction_per_hour:
  assumes "MicrogridSimulator_run params df = Inr logs"
  shows "\<forall>e \<in> set logs.
           (0 < p_bat_charge e \<longrightarrow> p_bat_discharge e = 0)
         \<and> (0 < p_bat_discharge e \<longrightarrow> p_bat_charge e = 0)
         \<and> (0 < p_elec e \<longrightarrow> p_fc e = 0)
         \<and> (0 < p_fc e \<longrightarrow> p_elec e = 0)"
proof -
  let ?P = "\<lambda>e. (p_bat_discharge e = 0 \<and> p_fc e = 0) \<or> (p_bat_charge e = 0 \<and> p_elec e = 0)"
  have "list_all2 (\<lambda>r e. ?P e) df logs"
  proof (rule run_rows [OF assms])
    fix r b s e b' s'
    assume "run_hour params r b s = Inr (e, b', s')"
    then show "?P e"
      by (cases rule: run_hour_cases) simp_all
  qed
  then have "\<forall>e \<in> set logs. ?P e"
    by (auto simp: list_all2_conv_all_nth in_set_conv_nth)
  then show ?thesis by auto
qed

text \<open>
  The demo run returns two records: the surplus hour charges and electrolyses, the
  deficit hour discharges and runs the fuel cell.
\<close>

theorem one_direction_per_hour_witness:
  "(\<exists>e1 e2. MicrogridSimulator_run demo_params demo_df = Inr [e1, e2]
      \<and> 0 < p_bat_charge e1 \<and> p_bat_discharge e1 = 0 \<and> 0 < p_elec e1 \<and> p_fc e1 = 0
      \<and> 0 < p_bat_discharge e2 \<and> p_bat_charge e2 = 0 \<and> 0 < p_fc e2 \<and> p_elec e2 = 0)"
  using one_direction_per_hour [OF demo_run]
  by (simp add: demo_run)


subsection \<open>The logged heat\<close>

text \<open>
  Claim C10. For every hour of every run that returns its log, the log has one record
  per row, and in each record the heat-pump thermal output equals the total heat demand:
  both are the space-heat demand plus the hot-water demand of the row, whatever the fuel
  cell's waste heat of that hour is.
\<close>

theorem heat_pump_heat_is_total_demand:
  assumes "MicrogridSimulator_run params df = Inr logs"
  shows "length logs = length df
       \<and> (\<forall>i < length df.
            heat_pump_heat (logs ! i) = heat_total_demand (logs ! i)
          \<and> (\<exists>q_space q_dhw.
                (df ! i) (space_heat_column params) = Some q_space
              \<and> (df ! i) (dhw_column params) = Some q_dhw
              \<and> heat_pump_heat (logs ! i) = q_space + q_dhw
              \<and> heat_total_demand (logs ! i) = q_space + q_dhw))"
proof -
  let ?Q = "\<lambda>r e. \<exists>q_space q_dhw. r (space_heat_column params) = Some q_space
           \<and> r (dhw_column params) = Some q_dhw
           \<and> heat_pump_heat e = q_space + q_dhw
           \<and> heat_total_demand e = q_space + q_dhw"
  have "list_all2 ?Q df logs"
    by (rule run_rows [OF assms]) (rule run_hour_common(4))
  then have len: "length df = length logs" and nth: "\<forall>i < length df. ?Q (df ! i) (logs ! i)"
    by (simp_all add: list_all2_conv_all_nth)
  show ?thesis
  proof (intro conjI allI impI)
    show "length logs = length df" using len by simp
  next
    fix i assume "i < length df"
    then have q: "?Q (df ! i) (logs ! i)" using nth by blast
    then show "heat_pump_heat (logs ! i) = heat_total_demand (logs ! i)" by auto
    from q show "\<exists>q_space q_dhw.
         (df ! i) (space_heat_column params) = Some q_space
       \<and> (df ! i) (dhw_column params) = Some q_dhw
       \<and> heat_pump_heat (logs ! i) = q_space + q_dhw
       \<and> heat_total_demand (logs ! i) = q_space + q_dhw" .
  qed
qed

text \<open>
  In the second hour of the demo run the fuel cell produces 7 kW of waste heat; both
  heat fields are still the demand of 3 + 1 kWh.
\<close>

lemma demo_df_second_row:
  "length demo_df = 2"
  "(demo_df ! Suc 0) (space_heat_column demo_params) = Some 3"
  "(demo_df ! Suc 0) (dhw_column demo_params) = Some 1"
  by (simp_all add: demo_df_def demo_row_def demo_params_fields)

theorem heat_pump_heat_is_total_demand_witness:
  "(\<exists>e1 e2. MicrogridSimulator_run demo_params demo_df = Inr [e1, e2]
      \<and> length [e1, e2] = length demo_df
      \<and> 0 < heat_from_fc e2
      \<and> heat_pump_heat e2 = heat_total_demand e2
      \<and> (demo_df ! 1) (space_heat_column demo_params) = Some 3
      \<and> (demo_df ! 1) (dhw_column demo_params) = Some 1
      \<and> heat_pump_heat e2 = 3 + 1)"
  using heat_pump_heat_is_total_demand [OF demo_run]
  by (simp add: demo_run demo_df_second_row)

subsection \<open>Scenario D: the remainder after both stores are full\<close>

lemma scenario_D_fields:
  "pv_column scenario_D_params = ''Solproduktion''"
  "plug_column scenario_D_params = ''Elforbrug''"
  "space_heat_column scenario_D_params = ''Varmeforbrug''"
  "dhw_column scenario_D_params = ''Forbrug varmt brugsvand''"
  "heat_pump_type scenario_D_params = LV"
  "eta_inv scenario_D_params = 1"
  by (simp_all add: scenario_D_params_def scenario_D_args_def post_init_def
      SystemParameters_default_def)

lemma scenario_D_devices:
  "Battery_init scenario_D_params =
     \<lparr>cap = 10, soc = 5, eta_c = 1, eta_d = 1, p_charge_max = 20, p_discharge_max = 20\<rparr>"
  "HydrogenStore_init scenario_D_params =
     \<lparr>cap_h2 = 100, h2 = 98, eta_elec = 1 / 2, eta_fc = 55 / 100,
      p_elec_max = 10, p_fc_max = 10\<rparr>"
  by (simp_all add: Battery_init_def HydrogenStore_init_def scenario_D_params_def
      scenario_D_args_def post_init_def SystemParameters_default_def ComponentLimits_default_def
      charge_eff_def discharge_eff_def)

text \<open>
  Claim C5, as stated, fails: with a surplus of 9.001 kW the battery takes 5 kW and is
  full, the electrolyser takes 4 kW and the tank is full, and the 0.001 kW that remain
  are exported, because 0.001 exceeds the tolerance of 0.000001 kW.
\<close>

theorem scenario_D_exports_counterexample:
  "MicrogridSimulator_run scenario_D_params [demo_row (9001 / 1000) 0 0 0 1] =
     Inr [\<lparr>pv_ac = 9001 / 1000, load = 0, net_before = 9001 / 1000,
            p_bat_charge = 5, p_bat_discharge = 0, soc_bat = 10,
            p_elec = 4, p_fc = 0, h2_store = 100,
            p_grid_export = 1 / 1000, p_grid_import = 0,
            heat_pump_heat = 0, heat_from_fc = 0,
            heat_total_demand = 0, hp_electricity = 0\<rparr>]
   \<and> battery_capacity_kwh scenario_D_params = 10
   \<and> h2_capacity_kwh scenario_D_params = 100
   \<and> (9001 / 1000 - 5 - 4 :: real) = 1 / 1000
   \<and> (1 / 1000 :: real) \<noteq> 0"
  by (simp add: MicrogridSimulator_run_def scenario_D_devices run_hour_def scenario_D_fields
      demo_row_get surplus_branch_def charge_Inr electrolyse_Inr EPS_def Let_def)
     (simp add: scenario_D_params_def scenario_D_args_def post_init_def
      SystemParameters_default_def)


text \<open>
  Claim C5, amended. On a battery that charges without loss (charge efficiency 1), in an
  hour whose surplus fills the battery (the charge is clamped by the headroom) and whose
  remainder, more than 0.000001 kW, lets the electrolyser fill the tank (the increase is
  clamped by the headroom), the hour is logged, the logged state of charge equals the
  battery capacity, the logged hydrogen level equals the tank capacity, the logged
  battery charge is the energy that filled the battery, the logged electrolyser power is
  the energy that filled the tank divided by the electrolyser efficiency, and the logged
  grid export is what remains of the surplus after these two draws if that exceeds
  \<open>EPS\<close> = 0.000001 kW, and 0 otherwise. With charge efficiency 1 the energy stored in
  the battery is the energy drawn at its AC side, so the remainder is the surplus that
  no device took.
\<close>

theorem scenario_D_export:
  assumes columns: "r (pv_column params) = Some pv"
      "r (space_heat_column params) = Some q_space"
      "r (dhw_column params) = Some q_dhw"
      "r (HeatPumpType_value (heat_pump_type params)) = Some cop"
      "r (plug_column params) = Some plug"
    and net: "net = pv * eta_inv params - (plug + (q_space + q_dhw) / max cop (1 / 10))"
    and surplus: "0 \<le> net"
    and lossless: "eta_c b = 1"
    and fills_battery: "cap b - soc b \<le> min net (p_charge_max b)"
    and left: "1 / 1000000 < net - (cap b - soc b)"
    and eta: "0 < eta_elec s"
    and fills_tank:
      "cap_h2 s - h2 s \<le> min (net - (cap b - soc b)) (p_elec_max s) * eta_elec s"
    and rest: "rest = net - (cap b - soc b) - (cap_h2 s - h2 s) / eta_elec s"
  shows "\<exists>entry b' s'. run_hour params r b s = Inr (entry, b', s')
           \<and> soc_bat entry = cap b \<and> soc b' = cap b'
           \<and> h2_store entry = cap_h2 s \<and> h2 s' = cap_h2 s'
           \<and> net_before entry = net
           \<and> p_bat_charge entry = cap b - soc b
           \<and> p_elec entry = (cap_h2 s - h2 s) / eta_elec s
           \<and> p_grid_export entry = (if EPS < rest then rest else 0)"
proof -
  have ch: "charge b net 1 = Inr (cap b - soc b, b\<lparr>soc := cap b\<rparr>)"
    using fills_battery by (simp add: charge_Inr lossless min_absorb2)
  have el: "electrolyse s (net - (cap b - soc b)) 1 =
      Inr ((cap_h2 s - h2 s) / eta_elec s, s\<lparr>h2 := cap_h2 s\<rparr>)"
    using fills_tank eta by (simp add: electrolyse_Inr min_absorb2)
  have br: "surplus_branch b s net =
      Inr ((cap b - soc b, (cap_h2 s - h2 s) / eta_elec s, if EPS < rest then rest else 0),
           b\<lparr>soc := cap b\<rparr>, s\<lparr>h2 := cap_h2 s\<rparr>)"
    using left by (simp add: surplus_branch_def ch el rest Let_def)
  have "run_hour params r b s =
      Inr (\<lparr>pv_ac = pv * eta_inv params,
             load = plug + (q_space + q_dhw) / max cop (1 / 10),
             net_before = net,
             p_bat_charge = cap b - soc b, p_bat_discharge = 0, soc_bat = cap b,
             p_elec = (cap_h2 s - h2 s) / eta_elec s, p_fc = 0, h2_store = cap_h2 s,
             p_grid_export = (if EPS < rest then rest else 0), p_grid_import = 0,
             heat_pump_heat = q_space + q_dhw, heat_from_fc = 0,
             heat_total_demand = q_space + q_dhw,
             hp_electricity = (q_space + q_dhw) / max cop (1 / 10)\<rparr>,
           b\<lparr>soc := cap b\<rparr>, s\<lparr>h2 := cap_h2 s\<rparr>)"
    using surplus br unfolding net
    by (simp add: run_hour_def row_get_def columns Let_def)
  then show ?thesis by simp
qed


text \<open>
  The battery of scenario D charges without loss. With a surplus of 9.0000001 kW it
  takes 5 kW and the electrolyser 4 kW; the 0.0000001 kW that remain are logged as an
  export of 0, and both stores are full.
\<close>

theorem scenario_D_export_witness:
  "(\<exists>entry b' s'.
      run_hour scenario_D_params (demo_row (9 + 1 / 10000000) 0 0 0 1)
        (Battery_init scenario_D_params) (HydrogenStore_init scenario_D_params)
        = Inr (entry, b', s')
    \<and> soc_bat entry = 10 \<and> h2_store entry = 100
    \<and> p_bat_charge entry = 5 \<and> p_elec entry = 4 \<and> p_grid_export entry = 0)
   \<and> eta_c (Battery_init scenario_D_params) = 1
   \<and> (9 + 1 / 10000000 - 5 - 4 :: real) \<le> EPS"
  using scenario_D_export
    [of "demo_row (9 + 1 / 10000000) 0 0 0 1" scenario_D_params "9 + 1 / 10000000" 0 0 1 0
        "9 + 1 / 10000000" "Battery_init scenario_D_params"
        "HydrogenStore_init scenario_D_params" "1 / 10000000"]
  by (simp add: scenario_D_fields scenario_D_devices demo_row_def EPS_def) blast

subsection \<open>The energy balance of an hour\<close>

text \<open>The surplus hour of the demo data, run on its own.\<close>

lemma demo_surplus_run:
  "MicrogridSimulator_run demo_params [demo_row 10 0 0 0 1] =
     Inr [\<lparr>pv_ac = 10, load = 0, net_before = 10,
            p_bat_charge = 5, p_bat_discharge = 0, soc_bat = 46,
            p_elec = 5, p_fc = 0, h2_store = 1005 / 2,
            p_grid_export = 0, p_grid_import = 0,
            heat_pump_heat = 0, heat_from_fc = 0,
            heat_total_demand = 0, hp_electricity = 0\<rparr>]"
  by (simp add: MicrogridSimulator_run_def demo_battery_init demo_store_init demo_surplus_hour)

text \<open>
  Claim C1 does not hold of the code. In the surplus hour of the demo run (10 kW of PV,
  no load, charge efficiency 1/2) the battery's state of charge rises by 5 kWh, which at
  efficiency 1/2 is an AC draw of 10 kW before the efficiency. \<open>charge\<close> returns the
  stored 5 kW instead, \<open>run\<close> takes that for the AC draw and passes the other 5 kW on to
  the electrolyser: sources of 10 kW face draws of 10 + 5 kW, and the balance of the
  claim is off by 5 kW, far beyond the tolerance.
\<close>

theorem energy_balance_fails_when_charging:
  "(\<exists>entry.
      MicrogridSimulator_run demo_params [demo_row 10 0 0 0 1] = Inr [entry]
    \<and> pv_ac entry = 10 \<and> load entry = 0
    \<and> p_grid_import entry = 0 \<and> p_bat_discharge entry = 0 \<and> p_fc entry = 0
    \<and> p_grid_export entry = 0 \<and> p_bat_charge entry = 5 \<and> p_elec entry = 5
    \<and> soc_bat entry - soc (Battery_init demo_params) = 5
    \<and> eta_c (Battery_init demo_params) = 1 / 2
    \<and> (pv_ac entry + p_grid_import entry + p_bat_discharge entry + p_fc entry)
        - (load entry + p_grid_export entry
           + (soc_bat entry - soc (Battery_init demo_params)) / (eta_c (Battery_init demo_params) * 1)
           + p_elec entry) = - 5)
   \<and> EPS < \<bar>- 5\<bar>"
  by (simp add: demo_surplus_run demo_battery_init demo_battery_def EPS_def)

subsection \<open>The bounds during a run\<close>

text \<open>
  \<open>run\<close> calls the devices with requests that are not negative and a time step of 1, so
  each hour keeps the bounds.
\<close>

lemma device_call_keeps:
  assumes "in_bounds b s" and "devices_valid b s" and "0 \<le> p" and "0 < dt_h"
  shows "charge b p dt_h = Inr (ret, b') \<Longrightarrow>
           in_bounds b' s \<and> devices_valid b' s \<and> cap b' = cap b \<and> eta_c b' = eta_c b"
    and "discharge b p dt_h = Inr (ret, b') \<Longrightarrow>
           in_bounds b' s \<and> devices_valid b' s \<and> cap b' = cap b \<and> eta_c b' = eta_c b"
    and "electrolyse s p dt_h = Inr (ret, s') \<Longrightarrow>
           in_bounds b s' \<and> devices_valid b s' \<and> cap_h2 s' = cap_h2 s"
    and "fuel_cell s p dt_h = Inr (rets, s') \<Longrightarrow>
           in_bounds b s' \<and> devices_valid b s' \<and> cap_h2 s' = cap_h2 s"
proof -
  have v: "eta_d b \<noteq> 0" "eta_elec s \<noteq> 0" "eta_fc s \<noteq> 0" "dt_h \<noteq> 0"
    using assms(2,4) by (simp_all add: devices_valid_def)
  show "in_bounds b' s \<and> devices_valid b' s \<and> cap b' = cap b \<and> eta_c b' = eta_c b"
    if "charge b p dt_h = Inr (ret, b')"
    using apply_call_preserves [of b s "Charge p dt_h"] assms that
    by (auto simp: charge_Inr v)
  show "in_bounds b' s \<and> devices_valid b' s \<and> cap b' = cap b \<and> eta_c b' = eta_c b"
    if "discharge b p dt_h = Inr (ret, b')"
    using apply_call_preserves [of b s "Discharge p dt_h"] assms that
    by (auto simp: discharge_Inr v)
  show "in_bounds b s' \<and> devices_valid b s' \<and> cap_h2 s' = cap_h2 s"
    if "electrolyse s p dt_h = Inr (ret, s')"
    using apply_call_preserves [of b s "Electrolyse p dt_h"] assms that
    by (auto simp: electrolyse_Inr v)
  show "in_bounds b s' \<and> devices_valid b s' \<and> cap_h2 s' = cap_h2 s"
    if "fuel_cell s p dt_h = Inr (rets, s')"
    using apply_call_preserves [of b s "Fuel_cell p dt_h"] assms that
    by (auto simp: fuel_cell_Inr v)
qed

lemma surplus_branch_keeps:
  assumes "in_bounds b s" and "devices_valid b s" and "0 \<le> net"
    and "surplus_branch b s net = Inr (out, b', s')"
  shows "in_bounds b' s' \<and> devices_valid b' s' \<and> cap b' = cap b \<and> cap_h2 s' = cap_h2 s
         \<and> eta_c b' = eta_c b"
proof -
  from assms(4) obtain ch where ch: "charge b net 1 = Inr (ch, b')"
    by (auto simp: surplus_branch_def Let_def split: sum.splits prod.splits if_splits)
  have b': "in_bounds b' s \<and> devices_valid b' s \<and> cap b' = cap b \<and> eta_c b' = eta_c b"
    using device_call_keeps(1) [OF assms(1,2,3) _ ch] by simp
  show ?thesis
  proof (cases "1 / 1000000 < net - ch")
    case True
    with assms(4) ch obtain el where el: "electrolyse s (net - ch) 1 = Inr (el, s')"
      by (auto simp: surplus_branch_def Let_def split: sum.splits prod.splits if_splits)
    have "0 \<le> net - ch" using True by simp
    from device_call_keeps(3) [OF _ _ this _ el, of b'] b' show ?thesis by simp
  next
    case False
    with assms(4) ch have "s' = s"
      by (auto simp: surplus_branch_def Let_def split: sum.splits prod.splits if_splits)
    with b' show ?thesis by simp
  qed
qed

lemma deficit_branch_keeps:
  assumes "in_bounds b s" and "devices_valid b s" and "net < 0"
    and "deficit_branch b s net = Inr (out, b', s')"
  shows "in_bounds b' s' \<and> devices_valid b' s' \<and> cap b' = cap b \<and> cap_h2 s' = cap_h2 s
         \<and> eta_c b' = eta_c b"
proof -
  from assms(4) obtain di where di: "discharge b (- net) 1 = Inr (di, b')"
    by (auto simp: deficit_branch_def Let_def split: sum.splits prod.splits if_splits)
  have n: "0 \<le> - net" using assms(3) by simp
  have b': "in_bounds b' s \<and> devices_valid b' s \<and> cap b' = cap b \<and> eta_c b' = eta_c b"
    using device_call_keeps(2) [OF assms(1,2) n _ di] by simp
  show ?thesis
  proof (cases "EPS < - net - di \<and> EPS < h2 s")
    case True
    with assms(4) di obtain rets where fc: "fuel_cell s (- net - di) 1 = Inr (rets, s')"
      by (auto simp: deficit_branch_def Let_def split: sum.splits prod.splits if_splits)
    have "0 \<le> - net - di" using True by (simp add: EPS_def)
    from device_call_keeps(4) [OF _ _ this _ fc, of b'] b' show ?thesis by simp
  next
    case False
    with assms(4) di have "s' = s"
      by (auto simp: deficit_branch_def Let_def split: sum.splits prod.splits if_splits)
    with b' show ?thesis by simp
  qed
qed


lemma run_hour_keeps:
  assumes "in_bounds b s" and "devices_valid b s"
    and "run_hour params r b s = Inr (entry, b', s')"
  shows "in_bounds b' s' \<and> devices_valid b' s' \<and> cap b' = cap b \<and> cap_h2 s' = cap_h2 s
         \<and> eta_c b' = eta_c b"
  using assms(3)
proof (cases rule: run_hour_cases)
  case (surplus ch el ex)
  then show ?thesis using surplus_branch_keeps [OF assms(1,2)] by blast
next
  case (deficit di fc hf im)
  then show ?thesis using deficit_branch_keeps [OF assms(1,2)] by blast
qed

text \<open>
  A property of the records that every hour establishes from an invariant of the
  devices holds for every record of the log.
\<close>

lemma run_loop_invariant:
  assumes "run_loop params rs b s acc = Inr out" and "I b s"
    and step: "\<And>r b s e b' s'. I b s \<Longrightarrow> run_hour params r b s = Inr (e, b', s')
                 \<Longrightarrow> I b' s' \<and> P e"
  shows "\<exists>es. out = acc @ es \<and> (\<forall>e \<in> set es. P e)"
  using assms(1,2)
proof (induction rs arbitrary: b s acc)
  case Nil
  then show ?case by simp
next
  case (Cons r rs)
  from Cons.prems(1) obtain e b' s' where
    h: "run_hour params r b s = Inr (e, b', s')"
    and rest: "run_loop params rs b' s' (acc @ [e]) = Inr out"
    by (auto split: sum.splits)
  from step [OF Cons.prems(2) h] have I': "I b' s'" and Pe: "P e" by simp_all
  from Cons.IH [OF rest I'] obtain es where "out = (acc @ [e]) @ es" "\<forall>e \<in> set es. P e"
    by blast
  then have "out = acc @ (e # es)" "\<forall>x \<in> set (e # es). P x"
    using Pe by simp_all
  then show ?case by blast
qed

text \<open>
  The bounds in the log: from devices within bounds and inside the invariant of the
  configuration, every logged state of charge and hydrogen level is within bounds.
\<close>

lemma logged_levels_in_bounds:
  assumes "MicrogridSimulator_run params df = Inr logs"
    and "in_bounds (Battery_init params) (HydrogenStore_init params)"
    and "devices_valid (Battery_init params) (HydrogenStore_init params)"
  shows "\<forall>e \<in> set logs. 0 \<le> soc_bat e \<and> soc_bat e \<le> battery_capacity_kwh params
           \<and> 0 \<le> h2_store e \<and> h2_store e \<le> h2_capacity_kwh params"
proof -
  let ?I = "\<lambda>b s. in_bounds b s \<and> devices_valid b s
              \<and> cap b = battery_capacity_kwh params \<and> cap_h2 s = h2_capacity_kwh params"
  let ?P = "\<lambda>e. 0 \<le> soc_bat e \<and> soc_bat e \<le> battery_capacity_kwh params
              \<and> 0 \<le> h2_store e \<and> h2_store e \<le> h2_capacity_kwh params"
  have init: "?I (Battery_init params) (HydrogenStore_init params)"
    using assms(2,3) by (simp add: Battery_init_def HydrogenStore_init_def)
  have "\<exists>es. logs = [] @ es \<and> (\<forall>e \<in> set es. ?P e)"
  proof (rule run_loop_invariant [where I = ?I, OF assms(1) [unfolded MicrogridSimulator_run_def] init])
    fix r b s e b' s'
    assume I: "?I b s" and h: "run_hour params r b s = Inr (e, b', s')"
    from run_hour_keeps [OF _ _ h] I
    have k: "in_bounds b' s'" "devices_valid b' s'" "cap b' = cap b" "cap_h2 s' = cap_h2 s"
      by simp_all
    moreover have "soc_bat e = soc b'" "h2_store e = h2 s'"
      using run_hour_common(2,3) [OF h] by simp_all
    ultimately show "?I b' s' \<and> ?P e"
      using I by (simp add: in_bounds_def)
  qed
  then show ?thesis by simp
qed

end
